theory Spec2Isabelle
  imports Main "HOL-Library.Char_ord" "HOL-Library.List_Lexorder" "HOL-Library.AList"
begin

section \<open>Bytes\<close>

text \<open>
  A Go \<^verbatim>\<open>string\<close> is a sequence of bytes, here a list of characters, compared by their
  codes. The byte comparison \<^verbatim>\<open>lo <= c && c <= hi\<close>:
\<close>

definition in_range :: "char \<Rightarrow> char \<Rightarrow> char \<Rightarrow> bool" where
  "in_range lo hi c = (lo \<le> c \<and> c \<le> hi)"

section \<open>Formatting verbs of package fmt\<close>

text \<open>
  Every format string of \<^verbatim>\<open>client.go\<close> is a literal whose verbs are \<^verbatim>\<open>%d\<close>,
  \<^verbatim>\<open>%s\<close> and \<^verbatim>\<open>%f\<close>, each applied to an operand of the matching type and without
  flags, width or precision. A call \<^verbatim>\<open>fmt.Sprintf("%d [%s]", a, b)\<close> is therefore
  written as the concatenation of the literal pieces and of the verbs' renderings.
\<close>

definition digit_char :: "nat \<Rightarrow> char" where
  "digit_char d = char_of (48 + d)"

fun dec_nat :: "nat \<Rightarrow> string" where
  "dec_nat n = (if n < 10 then [digit_char n] else dec_nat (n div 10) @ [digit_char (n mod 10)])"

declare dec_nat.simps [simp del]

text \<open>\<^verbatim>\<open>%d\<close> on a Go \<^verbatim>\<open>int\<close>: the decimal digits, with a minus sign for a negative value.\<close>

definition fmt_d :: "int \<Rightarrow> string" where
  "fmt_d i = (if i < 0 then CHR ''-'' # dec_nat (nat (- i)) else dec_nat (nat i))"

text \<open>\<^verbatim>\<open>%s\<close> on a Go \<^verbatim>\<open>string\<close>: the bytes of the string, unchanged.\<close>

definition fmt_s :: "string \<Rightarrow> string" where
  "fmt_s s = s"

subsection \<open>Floating-point operands\<close>

text \<open>
  A \<^verbatim>\<open>float64\<close> is a sign with either a dyadic magnitude \<open>m * 2 ^ e\<close>, an infinity, or
  a NaN. \<open>Finite neg m e\<close> stands for \<open>(- 1) ^ neg * m * 2 ^ e\<close>; the negative zero is
  \<open>Finite True 0 e\<close>. Rendering depends on the value only, so the representation is not
  required to be normalised.
\<close>

datatype float64 = Finite bool nat int | Infinity bool | NaN

definition round_half_even :: "nat \<Rightarrow> nat \<Rightarrow> nat" where
  "round_half_even num den =
     (let q = num div den; r = num mod den
      in if den < 2 * r \<or> (2 * r = den \<and> odd q) then q + 1 else q)"

text \<open>The magnitude in millionths, correctly rounded (ties to even), as strconv does.\<close>

definition millionths :: "nat \<Rightarrow> int \<Rightarrow> nat" where
  "millionths m e =
     (if 0 \<le> e then m * 2 ^ nat e * 10 ^ 6
      else round_half_even (m * 10 ^ 6) (2 ^ nat (- e)))"

definition pad6 :: "nat \<Rightarrow> string" where
  "pad6 n = replicate (6 - length (dec_nat n)) CHR ''0'' @ dec_nat n"

text \<open>
  \<^verbatim>\<open>%f\<close> on a \<^verbatim>\<open>float64\<close>: the sign if negative, the integer digits, a point and
  exactly six fraction digits; \<^verbatim>\<open>+Inf\<close>, \<^verbatim>\<open>-Inf\<close> and \<^verbatim>\<open>NaN\<close> otherwise.
\<close>

fun fmt_f :: "float64 \<Rightarrow> string" where
  "fmt_f (Finite neg m e) =
     (let n = millionths m e
      in (if neg then ''-'' else []) @ dec_nat (n div 10 ^ 6) @ ''.'' @ pad6 (n mod 10 ^ 6))"
| "fmt_f (Infinity neg) = (if neg then ''-Inf'' else ''+Inf'')"
| "fmt_f NaN = ''NaN''"

section \<open>Parsing of durations (package time)\<close>

text \<open>
  \<^verbatim>\<open>time.ParseDuration\<close> reads an optional sign and then one or more groups, each a
  decimal number with an optional fraction and a unit. A \<^verbatim>\<open>Duration\<close> is an
  \<^verbatim>\<open>int64\<close> count of nanoseconds; the parser computes in \<^verbatim>\<open>uint64\<close> and checks
  every step against \<open>2 ^ 63\<close>, which the model does on natural numbers.
\<close>

datatype duration_error = InvalidDuration | MissingUnit | UnknownUnit string

definition digit_val :: "char \<Rightarrow> nat" where
  "digit_val c = of_char c - 48"

text \<open>\<^verbatim>\<open>leadingInt\<close>: the leading digits as a number; \<open>None\<close> is \<^verbatim>\<open>errLeadingInt\<close>.\<close>

fun leadingInt_from :: "nat \<Rightarrow> string \<Rightarrow> (nat \<times> string) option" where
  "leadingInt_from x [] = Some (x, [])"
| "leadingInt_from x (c # s) =
     (if c < CHR ''0'' \<or> CHR ''9'' < c then Some (x, c # s)
      else if 2 ^ 63 div 10 < x then None
      else (let x' = x * 10 + digit_val c
            in if 2 ^ 63 < x' then None else leadingInt_from x' s))"

definition leadingInt :: "string \<Rightarrow> (nat \<times> string) option" where
  "leadingInt s = leadingInt_from 0 s"

text \<open>
  \<^verbatim>\<open>leadingFraction\<close>: the digits after the point as a number and its scale (a power
  of ten); digits beyond the capacity of the accumulator are skipped.
\<close>

fun leadingFraction_from :: "nat \<Rightarrow> nat \<Rightarrow> bool \<Rightarrow> string \<Rightarrow> nat \<times> nat \<times> string" where
  "leadingFraction_from x scale overflow [] = (x, scale, [])"
| "leadingFraction_from x scale overflow (c # s) =
     (if c < CHR ''0'' \<or> CHR ''9'' < c then (x, scale, c # s)
      else if overflow then leadingFraction_from x scale overflow s
      else if (2 ^ 63 - 1) div 10 < x then leadingFraction_from x scale True s
      else (let y = x * 10 + digit_val c
            in if 2 ^ 63 < y then leadingFraction_from x scale True s
               else leadingFraction_from y (scale * 10) overflow s))"

definition leadingFraction :: "string \<Rightarrow> nat \<times> nat \<times> string" where
  "leadingFraction s = leadingFraction_from 0 1 False s"

text \<open>\<^verbatim>\<open>unitMap\<close>, in nanoseconds. The micro sign and the Greek mu are two bytes each.\<close>

definition unitMap :: "string \<Rightarrow> nat option" where
  "unitMap = map_of
     [(''ns'', 1),
      (''us'', 1000),
      ([CHR 0xC2, CHR 0xB5, CHR ''s''], 1000),
      ([CHR 0xCE, CHR 0xBC, CHR ''s''], 1000),
      (''ms'', 1000000),
      (''s'', 1000000000),
      (''m'', 60000000000),
      (''h'', 3600000000000)]"

definition is_number_char :: "char \<Rightarrow> bool" where
  "is_number_char c = (c = CHR ''.'' \<or> (CHR ''0'' \<le> c \<and> c \<le> CHR ''9''))"

text \<open>
  The body of the loop of \<^verbatim>\<open>ParseDuration\<close>: one group of a non-empty input, giving
  its nanoseconds and the rest of the input. The fraction's share is
  \<^verbatim>\<open>uint64(float64(f) * (float64(unit) / scale))\<close> in the source; the model takes
  \<open>f * unit div scale\<close>. On the inputs \<^verbatim>\<open>timeUnitToDuration\<close> builds the two agree,
  since \<^verbatim>\<open>%f\<close> writes six fraction digits: the scale is \<open>10 ^ 6\<close>, which divides each of
  the units it uses, and the product is below \<open>2 ^ 53\<close>.
\<close>

definition parse_group :: "string \<Rightarrow> duration_error + (nat \<times> string)" where
  "parse_group s =
     (if \<not> is_number_char (hd s) then Inl InvalidDuration
      else case leadingInt s of
        None \<Rightarrow> Inl InvalidDuration
      | Some (v, s1) \<Rightarrow>
          (let pre = (length s \<noteq> length s1);
               (f, scale, s2) =
                  (if s1 \<noteq> [] \<and> hd s1 = CHR ''.'' then leadingFraction (tl s1)
                   else (0, 1, s1));
               post = (s1 \<noteq> [] \<and> hd s1 = CHR ''.'' \<and> length (tl s1) \<noteq> length s2)
           in if \<not> pre \<and> \<not> post then Inl InvalidDuration
              else (let i = length (takeWhile (\<lambda>c. \<not> is_number_char c) s2)
                    in if i = 0 then Inl MissingUnit
                       else (let u = take i s2; s3 = drop i s2
                             in case unitMap u of
                                  None \<Rightarrow> Inl (UnknownUnit u)
                                | Some unit \<Rightarrow>
                                    if 2 ^ 63 div unit < v then Inl InvalidDuration
                                    else (let v = v * unit;
                                              v = (if 0 < f then v + f * unit div scale else v)
                                          in if 0 < f \<and> 2 ^ 63 < v then Inl InvalidDuration
                                             else Inr (v, s3))))))"

text \<open>Each group consumes at least one byte, which is why the loop ends.\<close>

lemma leadingInt_from_length:
  "leadingInt_from x s = Some (v, r) \<Longrightarrow> length r \<le> length s"
  by (induction s arbitrary: x) (auto simp: Let_def split: if_splits intro: le_SucI)

lemma leadingFraction_from_length:
  "leadingFraction_from x sc ov s = (f, sc', r) \<Longrightarrow> length r \<le> length s"
  by (induction s arbitrary: x sc ov) (auto simp: Let_def split: if_splits intro: le_SucI)

lemma parse_group_shorter:
  assumes "parse_group s = Inr (v, r)"
  shows "length r < length s"
proof -
  from assms obtain v0 s1 where li: "leadingInt s = Some (v0, s1)"
    by (auto simp: parse_group_def split: if_splits option.splits)
  have l1: "length s1 \<le> length s"
    using li leadingInt_from_length by (simp add: leadingInt_def)
  obtain f sc s2 where fr:
    "(if s1 \<noteq> [] \<and> hd s1 = CHR ''.'' then leadingFraction (tl s1) else (0, 1, s1)) = (f, sc, s2)"
    using prod_cases3 by blast
  have l2: "length s2 \<le> length s1"
  proof (cases "s1 \<noteq> [] \<and> hd s1 = CHR ''.''")
    case True
    then have "leadingFraction_from 0 1 False (tl s1) = (f, sc, s2)"
      using fr by (simp add: leadingFraction_def)
    then have "length s2 \<le> length (tl s1)" by (rule leadingFraction_from_length)
    then show ?thesis by simp
  next
    case False
    then show ?thesis using fr by auto
  qed
  let ?i = "length (takeWhile (\<lambda>c. \<not> is_number_char c) s2)"
  from assms li fr have i0: "?i \<noteq> 0" and r: "r = drop ?i s2"
    by (auto simp: parse_group_def Let_def split: if_splits option.splits)
  have "?i \<le> length s2" by (rule length_takeWhile_le)
  with i0 have "length s2 - ?i < length s2" by arith
  then have "length r < length s2" unfolding r length_drop .
  with l1 l2 show ?thesis by simp
qed

text \<open>
  The loop \<^verbatim>\<open>for s != ""\<close>, with the running total \<^verbatim>\<open>d\<close>, a \<^verbatim>\<open>uint64\<close>: the sum
  of two values up to \<open>2 ^ 63\<close> can reach \<open>2 ^ 64\<close>, where it wraps.
\<close>

function ParseDuration_groups :: "nat \<Rightarrow> string \<Rightarrow> duration_error + nat" where
  "ParseDuration_groups d s =
     (if s = [] then Inr d
      else case parse_group s of
        Inl err \<Rightarrow> Inl err
      | Inr (v, s') \<Rightarrow>
          (let d = (d + v) mod 2 ^ 64
           in if 2 ^ 63 < d then Inl InvalidDuration else ParseDuration_groups d s'))"
  by pat_completeness auto
termination
  by (relation "measure (\<lambda>(d, s). length s)") (auto dest: parse_group_shorter)

declare ParseDuration_groups.simps [simp del]

text \<open>
  \<^verbatim>\<open>func ParseDuration(s string) (Duration, error)\<close>. With the sign, the total
  \<open>2 ^ 63\<close> is the least \<^verbatim>\<open>int64\<close>, whose negation in \<^verbatim>\<open>int64\<close> is itself.
\<close>

definition ParseDuration :: "string \<Rightarrow> duration_error + int" where
  "ParseDuration s =
     (let (neg, s) =
            (case s of
               [] \<Rightarrow> (False, s)
             | c # rest \<Rightarrow>
                 if c = CHR ''-'' \<or> c = CHR ''+'' then (c = CHR ''-'', rest) else (False, s))
      in if s = ''0'' then Inr 0
         else if s = [] then Inl InvalidDuration
         else case ParseDuration_groups 0 s of
           Inl err \<Rightarrow> Inl err
         | Inr d \<Rightarrow>
             if neg then Inr (- int d)
             else if 2 ^ 63 - 1 < d then Inl InvalidDuration
             else Inr (int d))"

text \<open>The constants of package time that the tests measure durations with.\<close>

definition Millisecond :: int where
  "Millisecond = 1000000"

definition Second :: int where
  "Second = 1000 * Millisecond"

section \<open>Normalisation of the reported response time\<close>

text \<open>The table \<^verbatim>\<open>timeUnits\<close> local to \<^verbatim>\<open>timeUnitToDuration\<close>.\<close>

definition timeUnits :: "string \<Rightarrow> string option" where
  "timeUnits = map_of
     [(''milliseconds'', ''ms''),
      (''seconds'', ''s''),
      (''minutes'', ''m'')]"

text \<open>\<^verbatim>\<open>func timeUnitToDuration(timeFloat float64, measure string) time.Duration\<close>\<close>

definition timeUnitToDuration :: "float64 \<Rightarrow> string \<Rightarrow> int" where
  "timeUnitToDuration timeFloat measure' =
     (case timeUnits measure' of
        None \<Rightarrow> 0
      | Some timeUnit \<Rightarrow>
          (case ParseDuration (fmt_f timeFloat @ fmt_s timeUnit) of
             Inl err \<Rightarrow> 0
           | Inr duration \<Rightarrow> duration))"

section \<open>The API error value\<close>

text \<open>
  \<^verbatim>\<open>type Error struct\<close>. \<^verbatim>\<open>Duration\<close> is a \<^verbatim>\<open>time.Duration\<close>, a count of nanoseconds.
\<close>

record Error =
  Code :: int
  Detail :: string
  Type :: string
  DeveloperFriendly :: string
  Duration :: int

text \<open>\<^verbatim>\<open>func (e Error) Error() string\<close>\<close>

definition Error_Error :: "Error \<Rightarrow> string" where
  "Error_Error e =
     (let details = Detail e;
          details = (if DeveloperFriendly e \<noteq> '''' then DeveloperFriendly e else details)
      in fmt_d (Code e) @ '' ['' @ fmt_s (Type e) @ '']: '' @ fmt_s details)"

section \<open>Errors\<close>

text \<open>
  The error values that travel through the client: messages made by \<^verbatim>\<open>fmt.Errorf\<close>,
  the two sentinels of package io, the syntax error of the JSON scanner (the offending
  byte, the context of its message and the offset), the API error, and any other error
  of a library, by its message.
\<close>

datatype error =
    ErrorString string
  | EOF
  | ErrUnexpectedEOF
  | SyntaxError char string nat
  | APIError Error
  | OtherError string

section \<open>The scanner of encoding/json\<close>

text \<open>
  The decoder finds the end of a JSON value with the scanner of \<^verbatim>\<open>scanner.go\<close>, a
  state machine fed one byte at a time. Its state is the step function to call on the
  next byte (\<open>step_fn\<close> names them) and the stack of the objects and arrays that are
  open; each step answers with a code.
\<close>

datatype parse_state = ParseObjectKey | ParseObjectValue | ParseArrayValue

datatype step_fn =
    StateBeginValueOrEmpty | StateBeginValue | StateBeginStringOrEmpty | StateBeginString
  | StateEndValue | StateEndTop
  | StateInString | StateInStringEsc | StateInStringEscU | StateInStringEscU1
  | StateInStringEscU12 | StateInStringEscU123
  | StateNeg | State1 | State0 | StateDot | StateDot0 | StateE | StateESign | StateE0
  | StateT | StateTr | StateTru | StateF | StateFa | StateFal | StateFals
  | StateN | StateNu | StateNul | StateError

datatype scan_code =
    scanContinue | scanBeginLiteral | scanBeginObject | scanObjectKey | scanObjectValue
  | scanEndObject | scanBeginArray | scanArrayValue | scanEndArray | scanSkipSpace
  | scanEnd | scanError

text \<open>
  \<^verbatim>\<open>type scanner struct\<close>. The stack \<^verbatim>\<open>parseState\<close> is kept with its top at the
  head of the list.
\<close>

record scanner =
  scan_step :: step_fn
  scan_endTop :: bool
  scan_parseState :: "parse_state list"
  scan_err :: "error option"
  scan_bytes :: nat

definition maxNestingDepth :: nat where
  "maxNestingDepth = 10000"

definition isSpace :: "char \<Rightarrow> bool" where
  "isSpace c = (c = CHR '' '' \<or> c = CHR 0x09 \<or> c = CHR 0x0D \<or> c = CHR 0x0A)"

definition is_digit :: "char \<Rightarrow> bool" where
  "is_digit c = (CHR ''0'' \<le> c \<and> c \<le> CHR ''9'')"

definition is_hex :: "char \<Rightarrow> bool" where
  "is_hex c =
     (in_range CHR ''0'' CHR ''9'' c \<or> in_range CHR ''a'' CHR ''f'' c
        \<or> in_range CHR ''A'' CHR ''F'' c)"

text \<open>\<^verbatim>\<open>func (s *scanner) error(c byte, context string) int\<close>\<close>

definition scanner_error :: "scanner \<Rightarrow> char \<Rightarrow> string \<Rightarrow> scan_code \<times> scanner" where
  "scanner_error s c ctx =
     (scanError, s\<lparr>scan_step := StateError, scan_err := Some (SyntaxError c ctx (scan_bytes s))\<rparr>)"

text \<open>A step that sets the next step function and answers with a code.\<close>

definition goto :: "scanner \<Rightarrow> step_fn \<Rightarrow> scan_code \<Rightarrow> scan_code \<times> scanner" where
  "goto s next code = (code, s\<lparr>scan_step := next\<rparr>)"

definition stateEndTop :: "scanner \<Rightarrow> char \<Rightarrow> scan_code \<times> scanner" where
  "stateEndTop s c =
     (if \<not> isSpace c then (scanEnd, snd (scanner_error s c ''after top-level value''))
      else (scanEnd, s))"

text \<open>\<^verbatim>\<open>popParseState\<close> is called with a stack that is not empty.\<close>

definition popParseState :: "scanner \<Rightarrow> scanner" where
  "popParseState s =
     (let ps = tl (scan_parseState s)
      in if length ps = 0 then s\<lparr>scan_parseState := ps, scan_step := StateEndTop, scan_endTop := True\<rparr>
         else s\<lparr>scan_parseState := ps, scan_step := StateEndValue\<rparr>)"

definition pushParseState :: "scanner \<Rightarrow> char \<Rightarrow> parse_state \<Rightarrow> scan_code \<Rightarrow> scan_code \<times> scanner" where
  "pushParseState s c newParseState successState =
     (let s = s\<lparr>scan_parseState := newParseState # scan_parseState s\<rparr>
      in if length (scan_parseState s) \<le> maxNestingDepth then (successState, s)
         else scanner_error s c ''exceeded max depth'')"

definition stateEndValue :: "scanner \<Rightarrow> char \<Rightarrow> scan_code \<times> scanner" where
  "stateEndValue s c =
     (case scan_parseState s of
        [] \<Rightarrow> stateEndTop (s\<lparr>scan_step := StateEndTop, scan_endTop := True\<rparr>) c
      | ps # below \<Rightarrow>
          if isSpace c then goto s StateEndValue scanSkipSpace
          else (case ps of
            ParseObjectKey \<Rightarrow>
              if c = CHR '':''
              then goto (s\<lparr>scan_parseState := ParseObjectValue # below\<rparr>) StateBeginValue scanObjectKey
              else scanner_error s c ''after object key''
          | ParseObjectValue \<Rightarrow>
              if c = CHR '',''
              then goto (s\<lparr>scan_parseState := ParseObjectKey # below\<rparr>) StateBeginString scanObjectValue
              else if c = CHR ''}'' then (scanEndObject, popParseState s)
              else scanner_error s c ''after object key:value pair''
          | ParseArrayValue \<Rightarrow>
              if c = CHR '','' then goto s StateBeginValue scanArrayValue
              else if c = CHR '']'' then (scanEndArray, popParseState s)
              else scanner_error s c ''after array element''))"

definition state0 :: "scanner \<Rightarrow> char \<Rightarrow> scan_code \<times> scanner" where
  "state0 s c =
     (if c = CHR ''.'' then goto s StateDot scanContinue
      else if c = CHR ''e'' \<or> c = CHR ''E'' then goto s StateE scanContinue
      else stateEndValue s c)"

definition state1 :: "scanner \<Rightarrow> char \<Rightarrow> scan_code \<times> scanner" where
  "state1 s c = (if is_digit c then goto s State1 scanContinue else state0 s c)"

definition stateNeg :: "scanner \<Rightarrow> char \<Rightarrow> scan_code \<times> scanner" where
  "stateNeg s c =
     (if c = CHR ''0'' then goto s State0 scanContinue
      else if CHR ''1'' \<le> c \<and> c \<le> CHR ''9'' then goto s State1 scanContinue
      else scanner_error s c ''in numeric literal'')"

definition stateDot :: "scanner \<Rightarrow> char \<Rightarrow> scan_code \<times> scanner" where
  "stateDot s c =
     (if is_digit c then goto s StateDot0 scanContinue
      else scanner_error s c ''after decimal point in numeric literal'')"

definition stateDot0 :: "scanner \<Rightarrow> char \<Rightarrow> scan_code \<times> scanner" where
  "stateDot0 s c =
     (if is_digit c then (scanContinue, s)
      else if c = CHR ''e'' \<or> c = CHR ''E'' then goto s StateE scanContinue
      else stateEndValue s c)"

definition stateESign :: "scanner \<Rightarrow> char \<Rightarrow> scan_code \<times> scanner" where
  "stateESign s c =
     (if is_digit c then goto s StateE0 scanContinue
      else scanner_error s c ''in exponent of numeric literal'')"

definition stateE :: "scanner \<Rightarrow> char \<Rightarrow> scan_code \<times> scanner" where
  "stateE s c =
     (if c = CHR ''+'' \<or> c = CHR ''-'' then goto s StateESign scanContinue
      else stateESign s c)"

definition stateE0 :: "scanner \<Rightarrow> char \<Rightarrow> scan_code \<times> scanner" where
  "stateE0 s c = (if is_digit c then (scanContinue, s) else stateEndValue s c)"

text \<open>The states inside the literals \<^verbatim>\<open>true\<close>, \<^verbatim>\<open>false\<close> and \<^verbatim>\<open>null\<close> expect one byte each.\<close>

definition expect_byte :: "scanner \<Rightarrow> char \<Rightarrow> char \<Rightarrow> step_fn \<Rightarrow> string \<Rightarrow> scan_code \<times> scanner" where
  "expect_byte s c wanted next ctx =
     (if c = wanted then goto s next scanContinue else scanner_error s c ctx)"

definition stateInString :: "scanner \<Rightarrow> char \<Rightarrow> scan_code \<times> scanner" where
  "stateInString s c =
     (if c = CHR 0x22 then goto s StateEndValue scanContinue
      else if c = CHR 0x5C then goto s StateInStringEsc scanContinue
      else if c < CHR 0x20 then scanner_error s c ''in string literal''
      else (scanContinue, s))"

definition stateInStringEsc :: "scanner \<Rightarrow> char \<Rightarrow> scan_code \<times> scanner" where
  "stateInStringEsc s c =
     (if c \<in> set [CHR ''b'', CHR ''f'', CHR ''n'', CHR ''r'', CHR ''t'', CHR 0x5C, CHR ''/'', CHR 0x22]
      then goto s StateInString scanContinue
      else if c = CHR ''u'' then goto s StateInStringEscU scanContinue
      else scanner_error s c ''in string escape code'')"

definition stateInStringEscU_any :: "scanner \<Rightarrow> char \<Rightarrow> step_fn \<Rightarrow> scan_code \<times> scanner" where
  "stateInStringEscU_any s c next =
     (if is_hex c then goto s next scanContinue
      else scanner_error s c (''in '' @ [CHR 0x5C] @ ''u hexadecimal character escape''))"

definition stateBeginString :: "scanner \<Rightarrow> char \<Rightarrow> scan_code \<times> scanner" where
  "stateBeginString s c =
     (if isSpace c then (scanSkipSpace, s)
      else if c = CHR 0x22 then goto s StateInString scanBeginLiteral
      else scanner_error s c ''looking for beginning of object key string'')"

text \<open>After \<^verbatim>\<open>{\<close>, so with the object on top of the stack.\<close>

definition stateBeginStringOrEmpty :: "scanner \<Rightarrow> char \<Rightarrow> scan_code \<times> scanner" where
  "stateBeginStringOrEmpty s c =
     (if isSpace c then (scanSkipSpace, s)
      else if c = CHR ''}''
      then stateEndValue (s\<lparr>scan_parseState := ParseObjectValue # tl (scan_parseState s)\<rparr>) c
      else stateBeginString s c)"

definition stateBeginValue :: "scanner \<Rightarrow> char \<Rightarrow> scan_code \<times> scanner" where
  "stateBeginValue s c =
     (if isSpace c then (scanSkipSpace, s)
      else if c = CHR ''{''
      then pushParseState (s\<lparr>scan_step := StateBeginStringOrEmpty\<rparr>) c ParseObjectKey scanBeginObject
      else if c = CHR ''[''
      then pushParseState (s\<lparr>scan_step := StateBeginValueOrEmpty\<rparr>) c ParseArrayValue scanBeginArray
      else if c = CHR 0x22 then goto s StateInString scanBeginLiteral
      else if c = CHR ''-'' then goto s StateNeg scanBeginLiteral
      else if c = CHR ''0'' then goto s State0 scanBeginLiteral
      else if c = CHR ''t'' then goto s StateT scanBeginLiteral
      else if c = CHR ''f'' then goto s StateF scanBeginLiteral
      else if c = CHR ''n'' then goto s StateN scanBeginLiteral
      else if CHR ''1'' \<le> c \<and> c \<le> CHR ''9'' then goto s State1 scanBeginLiteral
      else scanner_error s c ''looking for beginning of value'')"

definition stateBeginValueOrEmpty :: "scanner \<Rightarrow> char \<Rightarrow> scan_code \<times> scanner" where
  "stateBeginValueOrEmpty s c =
     (if isSpace c then (scanSkipSpace, s)
      else if c = CHR '']'' then stateEndValue s c
      else stateBeginValue s c)"

text \<open>The call \<^verbatim>\<open>s.step(s, c)\<close> through the function value held in the scanner.\<close>

fun apply_step :: "step_fn \<Rightarrow> scanner \<Rightarrow> char \<Rightarrow> scan_code \<times> scanner" where
  "apply_step StateBeginValueOrEmpty s c = stateBeginValueOrEmpty s c"
| "apply_step StateBeginValue s c = stateBeginValue s c"
| "apply_step StateBeginStringOrEmpty s c = stateBeginStringOrEmpty s c"
| "apply_step StateBeginString s c = stateBeginString s c"
| "apply_step StateEndValue s c = stateEndValue s c"
| "apply_step StateEndTop s c = stateEndTop s c"
| "apply_step StateInString s c = stateInString s c"
| "apply_step StateInStringEsc s c = stateInStringEsc s c"
| "apply_step StateInStringEscU s c = stateInStringEscU_any s c StateInStringEscU1"
| "apply_step StateInStringEscU1 s c = stateInStringEscU_any s c StateInStringEscU12"
| "apply_step StateInStringEscU12 s c = stateInStringEscU_any s c StateInStringEscU123"
| "apply_step StateInStringEscU123 s c = stateInStringEscU_any s c StateInString"
| "apply_step StateNeg s c = stateNeg s c"
| "apply_step State1 s c = state1 s c"
| "apply_step State0 s c = state0 s c"
| "apply_step StateDot s c = stateDot s c"
| "apply_step StateDot0 s c = stateDot0 s c"
| "apply_step StateE s c = stateE s c"
| "apply_step StateESign s c = stateESign s c"
| "apply_step StateE0 s c = stateE0 s c"
| "apply_step StateT s c = expect_byte s c CHR ''r'' StateTr ''in literal true (expecting 'r')''"
| "apply_step StateTr s c = expect_byte s c CHR ''u'' StateTru ''in literal true (expecting 'u')''"
| "apply_step StateTru s c = expect_byte s c CHR ''e'' StateEndValue ''in literal true (expecting 'e')''"
| "apply_step StateF s c = expect_byte s c CHR ''a'' StateFa ''in literal false (expecting 'a')''"
| "apply_step StateFa s c = expect_byte s c CHR ''l'' StateFal ''in literal false (expecting 'l')''"
| "apply_step StateFal s c = expect_byte s c CHR ''s'' StateFals ''in literal false (expecting 's')''"
| "apply_step StateFals s c = expect_byte s c CHR ''e'' StateEndValue ''in literal false (expecting 'e')''"
| "apply_step StateN s c = expect_byte s c CHR ''u'' StateNu ''in literal null (expecting 'u')''"
| "apply_step StateNu s c = expect_byte s c CHR ''l'' StateNul ''in literal null (expecting 'l')''"
| "apply_step StateNul s c = expect_byte s c CHR ''l'' StateEndValue ''in literal null (expecting 'l')''"
| "apply_step StateError s c = (scanError, s)"

definition scanner_step :: "scanner \<Rightarrow> char \<Rightarrow> scan_code \<times> scanner" where
  "scanner_step s c = apply_step (scan_step s) s c"

definition scanner_reset :: scanner where
  "scanner_reset =
     \<lparr>scan_step = StateBeginValue, scan_endTop = False, scan_parseState = [],
      scan_err = None, scan_bytes = 0\<rparr>"

section \<open>The decoder of encoding/json\<close>

text \<open>
  \<^verbatim>\<open>func (dec *Decoder) readValue() (int, error)\<close> on a new decoder whose reader
  delivers the bytes \<open>buf\<close> and then the end of input: the length of the first JSON
  value with the space before it, or the error. At the end of input the scanner is fed
  a space, which ends a number or a literal; an input that ends inside a value is an
  \<^verbatim>\<open>io.ErrUnexpectedEOF\<close>, an input of nothing but space an \<^verbatim>\<open>io.EOF\<close>.
\<close>

definition nonSpace :: "string \<Rightarrow> bool" where
  "nonSpace b = list_ex (\<lambda>c. \<not> isSpace c) b"

fun readValue_scan :: "string \<Rightarrow> scanner \<Rightarrow> string \<Rightarrow> nat \<Rightarrow> nat \<times> error option" where
  "readValue_scan buf s [] scanp =
     (if fst (scanner_step s CHR '' '') = scanEnd then (scanp, None)
      else if nonSpace buf then (0, Some ErrUnexpectedEOF)
      else (0, Some EOF))"
| "readValue_scan buf s (c # rest) scanp =
     (let (code, s) = scanner_step (s\<lparr>scan_bytes := scan_bytes s + 1\<rparr>) c
      in if code = scanEnd then (scanp, None)
         else if code = scanEndObject \<or> code = scanEndArray
         then (let (code', s) = stateEndValue s CHR '' ''
               in if code' = scanEnd then (scanp + 1, None)
                  else readValue_scan buf s rest (scanp + 1))
         else if code = scanError then (0, scan_err s)
         else readValue_scan buf s rest (scanp + 1))"

definition readValue :: "string \<Rightarrow> nat \<times> error option" where
  "readValue buf = readValue_scan buf scanner_reset buf 0"

text \<open>
  \<^verbatim>\<open>func (dec *Decoder) Decode(v interface{}) error\<close> on a new decoder over the body:
  it reads one value and hands its text to the filling of \<^verbatim>\<open>v\<close>, here the parameter
  \<open>fill\<close>, which gives the error and \<^verbatim>\<open>v\<close> as it leaves it.
\<close>

definition Decode ::
  "(string \<Rightarrow> 'a \<Rightarrow> error option \<times> 'a) \<Rightarrow> string \<Rightarrow> 'a \<Rightarrow> error option \<times> 'a" where
  "Decode fill body v =
     (case readValue body of
        (n, Some e) \<Rightarrow> (Some e, v)
      | (n, None) \<Rightarrow> fill (take n body) v)"

section \<open>Query parameters (url.Values) and headers\<close>

text \<open>
  \<^verbatim>\<open>url.Values\<close> and \<^verbatim>\<open>http.Header\<close> are both \<^verbatim>\<open>map[string][]string\<close>. A map is
  its list of entries, looked up from the front; a \<^verbatim>\<open>range\<close> loop over a map visits its
  entries in an order the language leaves open, which is the order of the list.
\<close>

type_synonym Values = "(string \<times> string list) list"

text \<open>The index expression \<^verbatim>\<open>v[key]\<close>: the nil slice for a missing key.\<close>

definition index :: "Values \<Rightarrow> string \<Rightarrow> string list" where
  "index v key = (case map_of v key of None \<Rightarrow> [] | Some vs \<Rightarrow> vs)"

text \<open>\<^verbatim>\<open>func (v Values) Get(key string) string\<close>\<close>

definition Values_Get :: "Values \<Rightarrow> string \<Rightarrow> string" where
  "Values_Get v key = (case index v key of [] \<Rightarrow> [] | value # _ \<Rightarrow> value)"

text \<open>\<^verbatim>\<open>func (v Values) Set(key, value string)\<close>\<close>

definition Values_Set :: "Values \<Rightarrow> string \<Rightarrow> string \<Rightarrow> Values" where
  "Values_Set v key value = AList.update key [value] v"

text \<open>\<^verbatim>\<open>func (v Values) Add(key, value string)\<close>\<close>

definition Values_Add :: "Values \<Rightarrow> string \<Rightarrow> string \<Rightarrow> Values" where
  "Values_Add v key value = AList.update key (index v key @ [value]) v"

subsection \<open>Encoding of a query\<close>

text \<open>The table \<^verbatim>\<open>upperhex\<close>, indexed by a half byte.\<close>

definition upperhex :: "nat \<Rightarrow> char" where
  "upperhex n = ''0123456789ABCDEF'' ! n"

text \<open>\<^verbatim>\<open>shouldEscape(c, encodeQueryComponent)\<close>: all but the unreserved bytes.\<close>

definition shouldEscape :: "char \<Rightarrow> bool" where
  "shouldEscape c =
     (\<not> (in_range CHR ''a'' CHR ''z'' c \<or> in_range CHR ''A'' CHR ''Z'' c
         \<or> in_range CHR ''0'' CHR ''9'' c
         \<or> c = CHR ''-'' \<or> c = CHR ''_'' \<or> c = CHR ''.'' \<or> c = CHR ''~''))"

definition escape_byte :: "char \<Rightarrow> string" where
  "escape_byte c =
     (if c = CHR '' '' then ''+''
      else if shouldEscape c
      then [CHR ''%'', upperhex (of_char c div 16), upperhex (of_char c mod 16)]
      else [c])"

text \<open>\<^verbatim>\<open>func QueryEscape(s string) string\<close>\<close>

definition QueryEscape :: "string \<Rightarrow> string" where
  "QueryEscape s = concat (map escape_byte s)"

text \<open>The pairs that \<^verbatim>\<open>Encode\<close> writes, in its order: by sorted key, then by position.\<close>

definition sorted_keys :: "Values \<Rightarrow> string list" where
  "sorted_keys v = sort (remdups (map fst v))"

definition encode_pairs :: "Values \<Rightarrow> (string \<times> string) list" where
  "encode_pairs v = concat (map (\<lambda>k. map (\<lambda>value. (k, value)) (index v k)) (sorted_keys v))"

fun join_amp :: "string list \<Rightarrow> string" where
  "join_amp [] = []"
| "join_amp [p] = p"
| "join_amp (p # q # ps) = p @ ''&'' @ join_amp (q # ps)"

text \<open>One pair as \<^verbatim>\<open>Encode\<close> writes it: the escaped key, \<^verbatim>\<open>=\<close>, the escaped value.\<close>

definition encode_pair :: "string \<times> string \<Rightarrow> string" where
  "encode_pair p = QueryEscape (fst p) @ ''='' @ QueryEscape (snd p)"

text \<open>\<^verbatim>\<open>func (v Values) Encode() string\<close>\<close>

definition Values_Encode :: "Values \<Rightarrow> string" where
  "Values_Encode v = join_amp (map encode_pair (encode_pairs v))"

text \<open>The values that the encoded query carries under a key, in their order.\<close>

definition encoded_values :: "Values \<Rightarrow> string \<Rightarrow> string list" where
  "encoded_values v k = map snd (filter (\<lambda>p. fst p = k) (encode_pairs v))"

subsection \<open>Parsing of a query\<close>

text \<open>\<^verbatim>\<open>unhex\<close> is called on bytes that \<^verbatim>\<open>ishex\<close> accepts.\<close>

definition unhex :: "char \<Rightarrow> nat" where
  "unhex c =
     (if in_range CHR ''0'' CHR ''9'' c then of_char c - 48
      else if in_range CHR ''a'' CHR ''f'' c then of_char c - 97 + 10
      else if in_range CHR ''A'' CHR ''F'' c then of_char c - 65 + 10
      else 0)"

definition ishex :: "char \<Rightarrow> bool" where
  "ishex c =
     (in_range CHR ''0'' CHR ''9'' c \<or> in_range CHR ''a'' CHR ''f'' c
        \<or> in_range CHR ''A'' CHR ''F'' c)"

text \<open>
  \<^verbatim>\<open>func QueryUnescape(s string) (string, error)\<close>: \<^verbatim>\<open>%XX\<close> is the byte \<^verbatim>\<open>XX\<close> and
  \<^verbatim>\<open>+\<close> a space; \<open>None\<close> is the \<^verbatim>\<open>EscapeError\<close> of a \<^verbatim>\<open>%\<close> that two hexadecimal
  digits do not follow.
\<close>

fun QueryUnescape :: "string \<Rightarrow> string option" where
  "QueryUnescape [] = Some []"
| "QueryUnescape (c # s) =
     (if c = CHR ''%''
      then (case s of
              h1 # h2 # rest \<Rightarrow>
                if ishex h1 \<and> ishex h2
                then map_option ((#) (char_of (unhex h1 * 16 + unhex h2))) (QueryUnescape rest)
                else None
            | _ \<Rightarrow> None)
      else map_option ((#) (if c = CHR ''+'' then CHR '' '' else c)) (QueryUnescape s))"

text \<open>\<^verbatim>\<open>strings.Cut\<close> at a byte: what stands before its first occurrence, and what after.\<close>

definition cut :: "char \<Rightarrow> string \<Rightarrow> string \<times> string" where
  "cut sep s = (takeWhile (\<lambda>c. c \<noteq> sep) s, drop 1 (dropWhile (\<lambda>c. c \<noteq> sep) s))"

lemma cut_shorter: "s \<noteq> [] \<Longrightarrow> length (snd (cut sep s)) < length s"
proof -
  assume "s \<noteq> []"
  then have "0 < length s" by simp
  moreover have "length (dropWhile (\<lambda>c. c \<noteq> sep) s) \<le> length s"
    by (rule length_dropWhile_le)
  ultimately have "length (dropWhile (\<lambda>c. c \<noteq> sep) s) - 1 < length s" by arith
  then show ?thesis by (simp add: cut_def)
qed

text \<open>
  \<^verbatim>\<open>func parseQuery(m Values, query string) (err error)\<close>, without its error: a
  setting with a semicolon or a bad escape is left out, and \<^verbatim>\<open>URL.Query\<close> drops the
  error.
\<close>

function parseQuery :: "Values \<Rightarrow> string \<Rightarrow> Values" where
  "parseQuery m query =
     (if query = [] then m
      else (let (key, query) = cut CHR ''&'' query
            in if CHR '';'' \<in> set key then parseQuery m query
               else if key = [] then parseQuery m query
               else (let (key, value) = cut CHR ''='' key
                     in case QueryUnescape key of
                          None \<Rightarrow> parseQuery m query
                        | Some key \<Rightarrow>
                            (case QueryUnescape value of
                               None \<Rightarrow> parseQuery m query
                             | Some value \<Rightarrow> parseQuery (Values_Add m key value) query))))"
  by pat_completeness auto
termination
  by (relation "measure (\<lambda>(m, query). length query)")
    (auto dest: cut_shorter [of _ "CHR ''&''"] simp: prod_eq_iff)

declare parseQuery.simps [simp del]

subsection \<open>Headers\<close>

text \<open>
  \<^verbatim>\<open>Header.Get\<close> and \<^verbatim>\<open>Header.Add\<close> put their key in canonical form first; the keys
  that \<^verbatim>\<open>client.go\<close> passes (\<^verbatim>\<open>Accept\<close>, \<^verbatim>\<open>Content-Type\<close>, \<^verbatim>\<open>User-Agent\<close>) are
  canonical already.
\<close>

definition Header_Get :: "Values \<Rightarrow> string \<Rightarrow> string" where
  "Header_Get h key = (case index h key of [] \<Rightarrow> [] | value # _ \<Rightarrow> value)"

definition Header_Add :: "Values \<Rightarrow> string \<Rightarrow> string \<Rightarrow> Values" where
  "Header_Add h key value = AList.update key (index h key @ [value]) h"

section \<open>Requests, responses and the libraries around them\<close>

text \<open>The fields of \<^verbatim>\<open>url.URL\<close> that the client sets or reads.\<close>

record URL =
  Scheme :: string
  Host :: string
  Path :: string
  RawQuery :: string

text \<open>\<^verbatim>\<open>func (u *URL) Query() Values\<close>\<close>

definition URL_Query :: "URL \<Rightarrow> Values" where
  "URL_Query u = parseQuery [] (RawQuery u)"

text \<open>A request as \<^verbatim>\<open>http.NewRequest\<close> makes it, without a body.\<close>

record Request =
  Method :: string
  Request_URL :: string
  Request_Header :: Values

text \<open>
  A response: the status code, the headers, and the bytes that its body delivers before
  it reports the end of input, as a \<^verbatim>\<open>bytes.Reader\<close> does.
\<close>

record Response =
  StatusCode :: int
  Header :: Values
  Body :: string

text \<open>
  The intermediary form that \<^verbatim>\<open>checkResponse\<close> decodes an error body into: the
  struct \<^verbatim>\<open>apiErr\<close> with its nested \<^verbatim>\<open>Meta\<close> and \<^verbatim>\<open>ResponseTime\<close>.
\<close>

record apiErr =
  Meta_Code :: int
  Meta_ErrorDetail :: string
  Meta_ErrorType :: string
  Meta_DeveloperFriendly :: string
  Meta_ResponseTime_Time :: float64
  Meta_ResponseTime_Measure :: string

text \<open>The zero value of a freshly declared \<^verbatim>\<open>apiErr\<close>.\<close>

definition apiErr_zero :: apiErr where
  "apiErr_zero =
     \<lparr>Meta_Code = 0, Meta_ErrorDetail = [], Meta_ErrorType = [], Meta_DeveloperFriendly = [],
      Meta_ResponseTime_Time = Finite False 0 0, Meta_ResponseTime_Measure = []\<rparr>"

text \<open>
  What the client calls in packages net/url, net/http and encoding/json without the
  claims depending on how it is computed: the parsing, resolution and printing of URLs, the making
  of a request, the transport, and the filling of a Go value from the text of one
  complete JSON value (for the error body, and for a destination of the caller's type
  \<open>'v\<close>). \<open>'h\<close> is the type of HTTP clients.
\<close>

record ('h, 'v) library =
  http_DefaultClient :: 'h
  url_Parse :: "string \<Rightarrow> error + URL"
  URL_ResolveReference :: "URL \<Rightarrow> URL \<Rightarrow> URL"
  URL_String :: "URL \<Rightarrow> string"
  http_NewRequest :: "string \<Rightarrow> string \<Rightarrow> error + Request"
  Client_Do :: "'h \<Rightarrow> Request \<Rightarrow> error + Response"
  unmarshal_apiErr :: "string \<Rightarrow> apiErr \<Rightarrow> error option \<times> apiErr"
  unmarshal :: "string \<Rightarrow> 'v \<Rightarrow> error option \<times> 'v"

section \<open>The client\<close>

definition jsonContentType :: string where
  "jsonContentType = ''application/json''"

text \<open>\<^verbatim>\<open>type Client struct\<close>. The field \<^verbatim>\<open>client\<close> is a pointer, \<open>None\<close> when nil.\<close>

record 'h Client =
  client :: "'h option"
  url :: URL
  clientID :: string
  clientSecret :: string
  userAgent :: string

text \<open>
  \<^verbatim>\<open>func NewClient(clientID string, clientSecret string, client *http.Client) (*Client, error)\<close>
\<close>

definition NewClient ::
  "('h, 'v) library \<Rightarrow> string \<Rightarrow> string \<Rightarrow> 'h option \<Rightarrow> 'h Client option \<times> error option" where
  "NewClient lib clientID' clientSecret' client' =
     (let client' = (if client' = None then Some (http_DefaultClient lib) else client');
          c = \<lparr>client = client',
               url = \<lparr>Scheme = ''https'', Host = ''api.untappd.com'', Path = ''v4'', RawQuery = []\<rparr>,
               clientID = clientID',
               clientSecret = clientSecret',
               userAgent = ''github.com/mdlayher/untappd''\<rparr>
      in (Some c, None))"

section \<open>Validation of a response\<close>

text \<open>\<^verbatim>\<open>func checkResponse(res *http.Response) error\<close>\<close>

definition checkResponse :: "('h, 'v) library \<Rightarrow> Response \<Rightarrow> error option" where
  "checkResponse lib res =
     (let cType = Header_Get (Header res) ''Content-Type''
      in if cType \<noteq> jsonContentType
         then Some (ErrorString (''expected '' @ fmt_s jsonContentType
                      @ '' content type, but received '' @ fmt_s cType))
         else (let c = StatusCode res
               in if 200 \<le> c \<and> c \<le> 299 then None
                  else (case Decode (unmarshal_apiErr lib) (Body res) apiErr_zero of
                          (Some err, _) \<Rightarrow> Some err
                        | (None, apiErr) \<Rightarrow>
                            Some (APIError
                              \<lparr>Code = Meta_Code apiErr,
                               Detail = Meta_ErrorDetail apiErr,
                               Type = Meta_ErrorType apiErr,
                               DeveloperFriendly = Meta_DeveloperFriendly apiErr,
                               Duration = timeUnitToDuration
                                 (Meta_ResponseTime_Time apiErr)
                                 (Meta_ResponseTime_Measure apiErr)\<rparr>))))"

section \<open>Dispatch of a request\<close>

text \<open>The two nested \<^verbatim>\<open>range\<close> loops that add the caller's query parameters.\<close>

definition add_values :: "Values \<Rightarrow> string \<Rightarrow> string list \<Rightarrow> Values" where
  "add_values q k v = fold (\<lambda>vv q. Values_Add q k vv) v q"

definition add_query :: "Values \<Rightarrow> Values \<Rightarrow> Values" where
  "add_query q query = fold (\<lambda>(k, v) q. add_values q k v) query q"

text \<open>
  The query of the URL that \<^verbatim>\<open>request\<close> builds, from the query \<^verbatim>\<open>q\<close> of the resolved
  URL: the caller's parameters, then the two credentials.
\<close>

definition request_query :: "'h Client \<Rightarrow> Values \<Rightarrow> Values \<Rightarrow> Values" where
  "request_query c q query =
     (let q = add_query q query;
          q = Values_Set q ''client_id'' (clientID c);
          q = Values_Set q ''client_secret'' (clientSecret c)
      in q)"

text \<open>The first part of \<^verbatim>\<open>request\<close>: the URL of the call, or the error of \<^verbatim>\<open>url.Parse\<close>.\<close>

definition request_url :: "('h, 'v) library \<Rightarrow> 'h Client \<Rightarrow> string \<Rightarrow> Values \<Rightarrow> error + URL" where
  "request_url lib c endpoint query =
     (case url_Parse lib (fmt_s (Path (url c)) @ ''/'' @ fmt_s endpoint @ ''/'') of
        Inl err \<Rightarrow> Inl err
      | Inr rel \<Rightarrow>
          (let u = URL_ResolveReference lib (url c) rel;
               q = request_query c (URL_Query u) query
           in Inr (u\<lparr>RawQuery := Values_Encode q\<rparr>)))"

text \<open>The three headers that \<^verbatim>\<open>request\<close> adds to the new request.\<close>

definition request_headers :: "'h Client \<Rightarrow> Request \<Rightarrow> Request" where
  "request_headers c req =
     (let h = Request_Header req;
          h = Header_Add h ''Accept'' jsonContentType;
          h = Header_Add h ''Content-Type'' jsonContentType;
          h = Header_Add h ''User-Agent'' (userAgent c)
      in req\<lparr>Request_Header := h\<rparr>)"

text \<open>Calling a method of a nil \<^verbatim>\<open>*http.Client\<close> ends the program.\<close>

datatype panic = NilPointerDereference

text \<open>
  The last part of \<^verbatim>\<open>request\<close>, once the transport has answered: validation, and
  decoding into the destination \<^verbatim>\<open>v\<close> unless it is nil (\<open>None\<close>). It gives the
  response, the error and the destination as the call leaves it. The body is closed when
  \<^verbatim>\<open>request\<close> returns, after all reading, and \<^verbatim>\<open>checkResponse\<close> reads it only on
  its way to an error.
\<close>

definition request_response ::
  "('h, 'v) library \<Rightarrow> Response \<Rightarrow> 'v option \<Rightarrow> Response option \<times> error option \<times> 'v option" where
  "request_response lib res v =
     (case checkResponse lib res of
        Some err \<Rightarrow> (Some res, Some err, v)
      | None \<Rightarrow>
          (case v of
             None \<Rightarrow> (Some res, None, None)
           | Some dst \<Rightarrow>
               (case Decode (unmarshal lib) (Body res) dst of
                  (err, dst') \<Rightarrow> (Some res, err, Some dst'))))"

text \<open>
  \<^verbatim>\<open>func (c *Client) request(method string, endpoint string, query url.Values, v interface{})
  (*http.Response, error)\<close>
\<close>

definition request ::
  "('h, 'v) library \<Rightarrow> 'h Client \<Rightarrow> string \<Rightarrow> string \<Rightarrow> Values \<Rightarrow> 'v option
     \<Rightarrow> panic + (Response option \<times> error option \<times> 'v option)" where
  "request lib c method endpoint query v =
     (case request_url lib c endpoint query of
        Inl err \<Rightarrow> Inr (None, Some err, v)
      | Inr u \<Rightarrow>
          (case http_NewRequest lib method (URL_String lib u) of
             Inl err \<Rightarrow> Inr (None, Some err, v)
           | Inr req \<Rightarrow>
               (let req = request_headers c req
                in case client c of
                     None \<Rightarrow> Inl NilPointerDereference
                   | Some hc \<Rightarrow>
                       (case Client_Do lib hc req of
                          Inl err \<Rightarrow> Inr (None, Some err, v)
                        | Inr res \<Rightarrow> Inr (request_response lib res v)))))"

section \<open>Instances of the libraries for closed examples\<close>

text \<open>
  A library whose transport answers every request with the response \<open>res\<close>, whose URLs
  carry no query of their own, and whose decoding into a destination stores the length
  of the JSON text it was given. The examples below run the client against it.
\<close>

definition example_library :: "Response \<Rightarrow> (unit, nat) library" where
  "example_library res =
     \<lparr>http_DefaultClient = (),
      url_Parse = (\<lambda>s. Inr \<lparr>Scheme = [], Host = [], Path = s, RawQuery = []\<rparr>),
      URL_ResolveReference = (\<lambda>base ref. ref\<lparr>Scheme := Scheme base, Host := Host base\<rparr>),
      URL_String = (\<lambda>u. Scheme u @ ''://'' @ Host u @ ''/'' @ Path u @ ''?'' @ RawQuery u),
      http_NewRequest =
        (\<lambda>method u. Inr \<lparr>Method = method, Request_URL = u, Request_Header = []\<rparr>),
      Client_Do = (\<lambda>h req. Inr res),
      unmarshal_apiErr = (\<lambda>s v. (None, v)),
      unmarshal = (\<lambda>s v. (None, length s))\<rparr>"

text \<open>The responses of the tests: a content type, a status and a body.\<close>

definition example_response :: "string \<Rightarrow> int \<Rightarrow> string \<Rightarrow> Response" where
  "example_response contentType code body =
     \<lparr>StatusCode = code, Header = [(''Content-Type'', [contentType])], Body = body\<rparr>"

text \<open>The client and the parameters of the tests, with a key the caller may not set.\<close>

definition example_client :: "unit Client" where
  "example_client =
     \<lparr>client = Some (),
      url = \<lparr>Scheme = ''https'', Host = ''api.untappd.com'', Path = ''v4'', RawQuery = []\<rparr>,
      clientID = ''foo'', clientSecret = ''bar'', userAgent = ''github.com/mdlayher/untappd''\<rparr>"

definition example_query :: Values where
  "example_query =
     [(''foo'', [''bar'']), (''client_id'', [''mine'']), (''baz'', [''qux'', ''corge''])]"

section \<open>Properties: the rendering of errors\<close>

lemma dec_nat_small: "n < 10 \<Longrightarrow> dec_nat n = [digit_char n]"
  by (simp add: dec_nat.simps)

lemma dec_nat_step: "10 \<le> n \<Longrightarrow> dec_nat n = dec_nat (n div 10) @ [digit_char (n mod 10)]"
  by (subst dec_nat.simps) simp

lemma digit_char_values:
  "digit_char 0 = CHR ''0''" "digit_char 1 = CHR ''1''" "digit_char 2 = CHR ''2''"
  "digit_char 3 = CHR ''3''" "digit_char 4 = CHR ''4''" "digit_char 5 = CHR ''5''"
  "digit_char 6 = CHR ''6''" "digit_char 7 = CHR ''7''" "digit_char 8 = CHR ''8''"
  "digit_char 9 = CHR ''9''" "digit_char (Suc 0) = CHR ''1''"
  by code_simp+

lemmas dec_nat_simps = dec_nat_small dec_nat_step digit_char_values

text \<open>
  C7. For every Error value, \<^verbatim>\<open>Error.Error\<close> renders the code in decimal, a space, the
  type between square brackets, a colon and a space, and then the preferred detail: the
  developer-friendly string when it is not empty, the plain detail string otherwise.
\<close>

theorem Error_Error_format:
  "Error_Error e =
     fmt_d (Code e) @ '' ['' @ Type e @ '']: '' @
       (if DeveloperFriendly e \<noteq> '''' then DeveloperFriendly e else Detail e)"
  by (simp add: Error_Error_def fmt_s_def Let_def)

text \<open>The three renderings that \<^verbatim>\<open>TestErrorError\<close> expects.\<close>

theorem Error_Error_format_witness:
  "Error_Error \<lparr>Code = 500, Detail = ''authentication failed'', Type = ''auth_failed'',
       DeveloperFriendly = [], Duration = 0\<rparr>
     = ''500 [auth_failed]: authentication failed''
   \<and> Error_Error \<lparr>Code = 501, Detail = [], Type = ''auth_failed'',
       DeveloperFriendly = ''authentication failed due to server error'', Duration = 0\<rparr>
     = ''501 [auth_failed]: authentication failed due to server error''
   \<and> Error_Error \<lparr>Code = 502, Detail = ''authentication failed'', Type = ''auth_failed'',
       DeveloperFriendly = ''authentication failed due to server error'', Duration = 0\<rparr>
     = ''502 [auth_failed]: authentication failed due to server error''"
  using
    Error_Error_format [of "\<lparr>Code = 500, Detail = ''authentication failed'',
       Type = ''auth_failed'', DeveloperFriendly = [], Duration = 0\<rparr>"]
    Error_Error_format [of "\<lparr>Code = 501, Detail = [], Type = ''auth_failed'',
       DeveloperFriendly = ''authentication failed due to server error'', Duration = 0\<rparr>"]
    Error_Error_format [of "\<lparr>Code = 502, Detail = ''authentication failed'',
       Type = ''auth_failed'',
       DeveloperFriendly = ''authentication failed due to server error'', Duration = 0\<rparr>"]
  by (simp add: fmt_d_def dec_nat_simps)

text \<open>
  C10. The rendering does not depend on the duration: two Error values that agree on
  code, type, detail and developer-friendly string render to the same string, whatever
  their durations.
\<close>

theorem Error_Error_ignores_Duration:
  assumes "Code e1 = Code e2" and "Type e1 = Type e2" and "Detail e1 = Detail e2"
    and "DeveloperFriendly e1 = DeveloperFriendly e2"
  shows "Error_Error e1 = Error_Error e2"
  using assms by (simp add: Error_Error_def)

theorem Error_Error_ignores_Duration_witness:
  "Error_Error \<lparr>Code = 500, Detail = ''Invalid user.'', Type = ''invalid_user'',
       DeveloperFriendly = [], Duration = 0\<rparr>
   = Error_Error \<lparr>Code = 500, Detail = ''Invalid user.'', Type = ''invalid_user'',
       DeveloperFriendly = [], Duration = 120 * Second\<rparr>"
  by (rule Error_Error_ignores_Duration) simp_all

section \<open>Properties: the construction of a client\<close>

text \<open>
  C1. \<^verbatim>\<open>NewClient\<close> has no check of its credentials: with an empty identifier, an
  empty secret or both it returns a client and no error, where \<^verbatim>\<open>TestNewClient\<close>
  expects \<^verbatim>\<open>ErrNoClientID\<close> and \<^verbatim>\<open>ErrNoClientSecret\<close>.
\<close>

theorem NewClient_empty_credentials:
  "snd (NewClient lib [] [] client') = None \<and> fst (NewClient lib [] [] client') \<noteq> None
   \<and> snd (NewClient lib [] ''bar'' client') = None \<and> fst (NewClient lib [] ''bar'' client') \<noteq> None
   \<and> snd (NewClient lib ''foo'' [] client') = None \<and> fst (NewClient lib ''foo'' [] client') \<noteq> None"
  by (simp add: NewClient_def Let_def)

text \<open>
  C9. Given a nil HTTP client, \<^verbatim>\<open>NewClient\<close> succeeds and the client it returns holds
  \<^verbatim>\<open>http.DefaultClient\<close>. Dispatch with that client never dereferences a nil pointer,
  and once the URL and the request are made, the outcome of \<^verbatim>\<open>request\<close> is that of
  sending the request through \<^verbatim>\<open>http.DefaultClient\<close>.
\<close>

theorem NewClient_nil_client:
  "\<exists>c. NewClient lib clientID' clientSecret' None = (Some c, None)
     \<and> client c = Some (http_DefaultClient lib)
     \<and> (\<forall>method endpoint query v.
           request lib c method endpoint query v \<noteq> Inl NilPointerDereference)
     \<and> (\<forall>method endpoint query v u req.
           request_url lib c endpoint query = Inr u
           \<and> http_NewRequest lib method (URL_String lib u) = Inr req
           \<longrightarrow> request lib c method endpoint query v =
                 (case Client_Do lib (http_DefaultClient lib) (request_headers c req) of
                    Inl err \<Rightarrow> Inr (None, Some err, v)
                  | Inr res \<Rightarrow> Inr (request_response lib res v)))"
  by (auto simp add: NewClient_def request_def Let_def split: sum.splits)

theorem NewClient_nil_client_witness:
  "\<exists>c. NewClient (example_library (example_response ''application/json'' 200 ''{}''))
          ''foo'' ''bar'' None = (Some c, None)
     \<and> client c = Some ()
     \<and> request (example_library (example_response ''application/json'' 200 ''{}''))
          c ''GET'' ''foo'' [] None \<noteq> Inl NilPointerDereference"
  using NewClient_nil_client
    [of "example_library (example_response ''application/json'' 200 ''{}'')" "''foo''" "''bar''"]
  by auto

section \<open>Properties: the normalised durations\<close>

lemma replicate_pred_numeral: "replicate (numeral k) x = x # replicate (pred_numeral k) x"
  by (simp add: numeral_eq_Suc)

lemmas fmt_f_simps =
  millionths_def round_half_even_def pad6_def dec_nat_simps Let_def replicate_pred_numeral

lemmas parse_group_simps =
  parse_group_def is_number_char_def leadingInt_def leadingFraction_def digit_val_def
  unitMap_def Let_def

lemma ParseDuration_groups_Nil: "ParseDuration_groups d [] = Inr d"
  by (simp add: ParseDuration_groups.simps)

lemma ParseDuration_groups_Inr:
  "s \<noteq> [] \<Longrightarrow> parse_group s = Inr (v, s') \<Longrightarrow>
   ParseDuration_groups d s =
     (if 2 ^ 63 < (d + v) mod 2 ^ 64 then Inl InvalidDuration
      else ParseDuration_groups ((d + v) mod 2 ^ 64) s')"
  by (subst ParseDuration_groups.simps) (simp add: Let_def)

text \<open>An unsigned input made of one group, below the largest duration.\<close>

lemma ParseDuration_one_group:
  assumes "parse_group (c # s) = Inr (v, [])" and "c \<noteq> CHR ''-''" and "c \<noteq> CHR ''+''"
    and "c # s \<noteq> ''0''" and "v < 2 ^ 63"
  shows "ParseDuration (c # s) = Inr (int v)"
  using assms
  by (auto simp add: ParseDuration_def ParseDuration_groups_Inr [OF _ assms(1)]
      ParseDuration_groups_Nil)

text \<open>
  The \<^verbatim>\<open>float64\<close> nearest to 0.05 has the 53-bit significand \<open>7205759403792794\<close> and
  the exponent \<open>- 57\<close>: the significand is within one half of \<open>0.05 * 2 ^ 57\<close>. The
  other magnitudes of the tests (500, 0.5, 1, 2) are dyadic.
\<close>

lemma float64_nearest_to_one_twentieth:
  "2 ^ 52 \<le> (7205759403792794 :: int) \<and> 7205759403792794 < (2 :: int) ^ 53
   \<and> 2 * \<bar>20 * 7205759403792794 - 2 ^ 57\<bar> \<le> (20 :: int)"
  by simp

text \<open>What \<^verbatim>\<open>%f\<close> writes for the magnitudes of the tests, and what the parser reads.\<close>

lemma fmt_f_examples:
  "fmt_f (Finite False 7205759403792794 (- 57)) = ''0.050000''"
  "fmt_f (Finite False 500 0) = ''500.000000''"
  "fmt_f (Finite False 1 (- 1)) = ''0.500000''"
  "fmt_f (Finite False 1 0) = ''1.000000''"
  "fmt_f (Finite False 2 0) = ''2.000000''"
  "fmt_f (Finite False (Suc 0) (- 1)) = ''0.500000''"
  "fmt_f (Finite False (Suc 0) 0) = ''1.000000''"
  by (simp_all add: fmt_f_simps)

lemma parse_group_examples:
  "parse_group ''0.050000ms'' = Inr (50000, [])"
  "parse_group ''500.000000ms'' = Inr (500000000, [])"
  "parse_group ''0.500000s'' = Inr (500000000, [])"
  "parse_group ''0.500000m'' = Inr (30000000000, [])"
  "parse_group ''1.000000m'' = Inr (60000000000, [])"
  "parse_group ''2.000000m'' = Inr (120000000000, [])"
  by (simp_all add: parse_group_simps)

lemma ParseDuration_examples:
  "ParseDuration ''0.050000ms'' = Inr 50000"
  "ParseDuration ''500.000000ms'' = Inr 500000000"
  "ParseDuration ''0.500000s'' = Inr 500000000"
  "ParseDuration ''0.500000m'' = Inr 30000000000"
  "ParseDuration ''1.000000m'' = Inr 60000000000"
  "ParseDuration ''2.000000m'' = Inr 120000000000"
  using parse_group_examples [THEN ParseDuration_one_group] by simp_all

lemmas timeUnitToDuration_simps =
  timeUnitToDuration_def timeUnits_def fmt_s_def fmt_f_examples ParseDuration_examples
  Millisecond_def Second_def

lemma timeUnitToDuration_unknown_unit:
  "measure' \<notin> {''milliseconds'', ''seconds'', ''minutes''}
     \<Longrightarrow> timeUnitToDuration timeFloat measure' = 0"
  by (simp add: timeUnitToDuration_def timeUnits_def)

text \<open>
  C3. \<^verbatim>\<open>timeUnitToDuration\<close> maps 0.05 milliseconds (the \<^verbatim>\<open>float64\<close> nearest to 0.05
  is \<open>7205759403792794 / 2 ^ 57\<close>) to 1/20000 of a second, 500 milliseconds to 500 ms,
  0.5 seconds to 500 ms, 0.5 minutes to 30 s, 1 minute to 60 s and 2 minutes to 120 s;
  and for every magnitude, a unit other than \<^verbatim>\<open>milliseconds\<close>, \<^verbatim>\<open>seconds\<close> and \<^verbatim>\<open>minutes\<close>
  gives the zero duration. The function has no error result.
\<close>

theorem timeUnitToDuration_values:
  "timeUnitToDuration (Finite False 7205759403792794 (- 57)) ''milliseconds'' = Second div 20000
   \<and> timeUnitToDuration (Finite False 500 0) ''milliseconds'' = 500 * Millisecond
   \<and> timeUnitToDuration (Finite False 1 (- 1)) ''seconds'' = 500 * Millisecond
   \<and> timeUnitToDuration (Finite False 1 (- 1)) ''minutes'' = 30 * Second
   \<and> timeUnitToDuration (Finite False 1 0) ''minutes'' = 60 * Second
   \<and> timeUnitToDuration (Finite False 2 0) ''minutes'' = 120 * Second
   \<and> (\<forall>timeFloat measure'. measure' \<notin> {''milliseconds'', ''seconds'', ''minutes''}
          \<longrightarrow> timeUnitToDuration timeFloat measure' = 0)"
proof (intro conjI allI impI)
  show "timeUnitToDuration (Finite False 7205759403792794 (- 57)) ''milliseconds'' = Second div 20000"
    by (simp add: timeUnitToDuration_simps del: fmt_f.simps)
  show "timeUnitToDuration (Finite False 500 0) ''milliseconds'' = 500 * Millisecond"
    by (simp add: timeUnitToDuration_simps del: fmt_f.simps)
  show "timeUnitToDuration (Finite False 1 (- 1)) ''seconds'' = 500 * Millisecond"
    by (simp add: timeUnitToDuration_simps del: fmt_f.simps)
  show "timeUnitToDuration (Finite False 1 (- 1)) ''minutes'' = 30 * Second"
    by (simp add: timeUnitToDuration_simps del: fmt_f.simps)
  show "timeUnitToDuration (Finite False 1 0) ''minutes'' = 60 * Second"
    by (simp add: timeUnitToDuration_simps del: fmt_f.simps)
  show "timeUnitToDuration (Finite False 2 0) ''minutes'' = 120 * Second"
    by (simp add: timeUnitToDuration_simps del: fmt_f.simps)
  show "timeUnitToDuration timeFloat measure' = 0"
    if "measure' \<notin> {''milliseconds'', ''seconds'', ''minutes''}" for timeFloat measure'
    using that by (rule timeUnitToDuration_unknown_unit)
qed

text \<open>The unknown units of the tests: 100 hours, 10 days, 1 lightyear.\<close>

theorem timeUnitToDuration_values_witness:
  "timeUnitToDuration (Finite False 100 0) ''hours'' = 0
   \<and> timeUnitToDuration (Finite False 10 0) ''days'' = 0
   \<and> timeUnitToDuration (Finite False 1 0) ''lightyears'' = 0"
  using timeUnitToDuration_values by simp

section \<open>Properties: the validation of a response\<close>

text \<open>
  C4. Whatever the status code, a response whose \<^verbatim>\<open>Content-Type\<close> header is not
  exactly \<^verbatim>\<open>application/json\<close> fails validation with the error whose message is
  \<^verbatim>\<open>expected application/json content type, but received\<close> followed by the type
  received.
\<close>

theorem checkResponse_content_type:
  assumes "Header_Get (Header res) ''Content-Type'' \<noteq> ''application/json''"
  shows "checkResponse lib res =
           Some (ErrorString (''expected application/json content type, but received ''
                   @ Header_Get (Header res) ''Content-Type''))"
  using assms by (simp add: checkResponse_def jsonContentType_def fmt_s_def Let_def)

text \<open>\<^verbatim>\<open>Test_checkResponseWrongContentType\<close>: the type \<^verbatim>\<open>foo/bar\<close> with status 200.\<close>

theorem checkResponse_content_type_witness:
  "checkResponse (example_library (example_response ''application/json'' 200 []))
     (example_response ''foo/bar'' 200 [])
   = Some (ErrorString ''expected application/json content type, but received foo/bar'')"
  using checkResponse_content_type
    [of "example_response ''foo/bar'' 200 []"
        "example_library (example_response ''application/json'' 200 [])"]
  by (simp add: example_response_def Header_Get_def index_def)


lemma readValue_open_brace: "readValue ''{'' = (0, Some ErrUnexpectedEOF)"
  by (simp add: readValue_def scanner_reset_def scanner_step_def stateBeginValue_def
      stateBeginStringOrEmpty_def pushParseState_def maxNestingDepth_def
      isSpace_def nonSpace_def goto_def Let_def)



text \<open>
  C6. A response of JSON content type whose status is in 200..299 passes validation,
  whatever its body.
\<close>

theorem checkResponse_success:
  assumes "Header_Get (Header res) ''Content-Type'' = ''application/json''"
    and "200 \<le> StatusCode res" and "StatusCode res \<le> 299"
  shows "checkResponse lib res = None"
  using assms by (simp add: checkResponse_def jsonContentType_def Let_def)

text \<open>
  \<^verbatim>\<open>Test_checkResponseOKNoBody\<close> and \<^verbatim>\<open>Test_checkResponseOKWithBody\<close>, and the two ends
  of the range with a body that is not JSON.
\<close>

theorem checkResponse_success_witness:
  "checkResponse (example_library (example_response ''application/json'' 200 []))
     (example_response ''application/json'' 200 []) = None
   \<and> checkResponse (example_library (example_response ''application/json'' 200 []))
     (example_response ''application/json'' 200 ''{}'') = None
   \<and> checkResponse (example_library (example_response ''application/json'' 200 []))
     (example_response ''application/json'' 299 ''{'') = None"
  using
    checkResponse_success
      [of "example_response ''application/json'' 200 []"
          "example_library (example_response ''application/json'' 200 [])"]
    checkResponse_success
      [of "example_response ''application/json'' 200 ''{}''"
          "example_library (example_response ''application/json'' 200 [])"]
    checkResponse_success
      [of "example_response ''application/json'' 299 ''{''"
          "example_library (example_response ''application/json'' 200 [])"]
  by (simp add: example_response_def Header_Get_def index_def)

section \<open>Properties: the query of a request\<close>

lemma index_update: "index (AList.update k vs q) k' = (if k' = k then vs else index q k')"
  by (simp add: index_def update_conv')

lemma index_Values_Set: "index (Values_Set q k x) k' = (if k' = k then [x] else index q k')"
  by (simp add: Values_Set_def index_update)

lemma index_Values_Add:
  "index (Values_Add q k x) k' = (if k' = k then index q k @ [x] else index q k')"
  by (simp add: Values_Add_def index_update)

lemma index_add_values:
  "index (add_values q k vs) k' = (if k' = k then index q k @ vs else index q k')"
  unfolding add_values_def
  by (induction vs arbitrary: q) (simp_all add: index_Values_Add)

lemma index_missing: "k \<notin> fst ` set q \<Longrightarrow> index q k = []"
proof -
  assume "k \<notin> fst ` set q"
  then have "map_of q k = None" by (simp add: map_of_eq_None_iff)
  then show ?thesis by (simp add: index_def)
qed

lemma index_Cons: "index ((k0, vs) # q) k = (if k = k0 then vs else index q k)"
  by (simp add: index_def)

text \<open>
  The outer loop visits each key of the caller's map once, so after it every key holds
  what it held before, followed by the caller's values.
\<close>

lemma index_add_query:
  "distinct (map fst query) \<Longrightarrow> index (add_query q query) k = index q k @ index query k"
proof (induction query arbitrary: q)
  case Nil
  then show ?case by (simp add: add_query_def index_def)
next
  case (Cons e query)
  obtain k0 vs where e: "e = (k0, vs)" by (cases e)
  from Cons.prems e have k0: "k0 \<notin> fst ` set query" and d: "distinct (map fst query)"
    by auto
  have "index (add_query q (e # query)) k = index (add_query (add_values q k0 vs) query) k"
    by (simp add: add_query_def e)
  also have "\<dots> = index (add_values q k0 vs) k @ index query k"
    using d by (rule Cons.IH)
  also have "\<dots> = index q k @ index (e # query) k"
    using k0 by (simp add: index_add_values e index_Cons index_missing)
  finally show ?case .
qed

lemma index_request_query:
  assumes "distinct (map fst query)"
  shows "index (request_query c q query) k =
     (if k = ''client_secret'' then [clientSecret c]
      else if k = ''client_id'' then [clientID c]
      else index q k @ index query k)"
  using assms by (simp add: request_query_def index_Values_Set index_add_query Let_def)

text \<open>The encoding writes, under each key, the values the map holds for it.\<close>

lemma filter_block:
  "distinct ks \<Longrightarrow>
   map snd (filter (\<lambda>p. fst p = k) (concat (map (\<lambda>k'. map (\<lambda>x. (k', x)) (f k')) ks)))
     = (if k \<in> set ks then f k else [])"
proof (induction ks)
  case Nil
  then show ?case by simp
next
  case (Cons a ks)
  have blk: "map snd (filter (\<lambda>p. fst p = k) (map (\<lambda>x. (a, x)) (f a))) = (if a = k then f a else [])"
    by (induction "f a") (auto simp: filter_empty_conv o_def comp_def map_idI)
  show ?case using Cons by (auto simp: blk)
qed

lemma encoded_values_index: "encoded_values v k = index v k"
proof -
  have "distinct (sorted_keys v)" by (simp add: sorted_keys_def)
  then have "encoded_values v k = (if k \<in> set (sorted_keys v) then index v k else [])"
    unfolding encoded_values_def encode_pairs_def by (rule filter_block)
  moreover have "k \<notin> set (sorted_keys v) \<Longrightarrow> index v k = []"
    by (simp add: sorted_keys_def index_missing)
  ultimately show ?thesis by simp
qed

text \<open>What \<^verbatim>\<open>Encode\<close> writes, \<^verbatim>\<open>URL.Query\<close> reads back.\<close>

lemma upperhex_values:
  "n < 16 \<Longrightarrow> ishex (upperhex n) \<and> unhex (upperhex n) = n
     \<and> upperhex n \<noteq> CHR ''&'' \<and> upperhex n \<noteq> CHR ''='' \<and> upperhex n \<noteq> CHR '';''"
proof -
  assume "n < 16"
  then have "n = 0 \<or> n = 1 \<or> n = 2 \<or> n = 3 \<or> n = 4 \<or> n = 5 \<or> n = 6 \<or> n = 7
      \<or> n = 8 \<or> n = 9 \<or> n = 10 \<or> n = 11 \<or> n = 12 \<or> n = 13 \<or> n = 14 \<or> n = 15"
    by arith
  then show ?thesis
    by (elim disjE) (simp_all add: upperhex_def ishex_def unhex_def in_range_def)
qed

lemma nibbles_less:
  "(of_char c :: nat) div 16 < 16" "(of_char c :: nat) mod 16 < 16"
  using nat_of_char_less_256 [of c] by (simp_all add: less_mult_imp_div_less)

lemma QueryUnescape_escape_byte:
  "QueryUnescape (escape_byte c @ s) = map_option ((#) c) (QueryUnescape s)"
proof (cases "c = CHR '' ''")
  case True
  then show ?thesis by (simp add: escape_byte_def)
next
  case not_space: False
  show ?thesis
  proof (cases "shouldEscape c")
    case True
    with not_space show ?thesis
      using upperhex_values [OF nibbles_less(1), of c] upperhex_values [OF nibbles_less(2), of c]
      by (simp add: escape_byte_def)
  next
    case False
    then have "c \<noteq> CHR ''%''" "c \<noteq> CHR ''+''"
      by (auto simp: shouldEscape_def in_range_def)
    with False not_space show ?thesis
      by (simp add: escape_byte_def)
  qed
qed

lemma QueryUnescape_QueryEscape: "QueryUnescape (QueryEscape s) = Some s"
  by (induction s) (simp_all add: QueryEscape_def QueryUnescape_escape_byte)

lemma escape_byte_no_separator:
  "x \<in> set (escape_byte c) \<Longrightarrow> x \<noteq> CHR ''&'' \<and> x \<noteq> CHR ''='' \<and> x \<noteq> CHR '';''"
  using upperhex_values [OF nibbles_less(1), of c] upperhex_values [OF nibbles_less(2), of c]
  by (auto simp: escape_byte_def shouldEscape_def in_range_def split: if_splits)

lemma QueryEscape_no_separator:
  "x \<in> set (QueryEscape s) \<Longrightarrow> x \<noteq> CHR ''&'' \<and> x \<noteq> CHR ''='' \<and> x \<noteq> CHR '';''"
  by (auto simp: QueryEscape_def dest: escape_byte_no_separator)

lemma cut_at_separator: "sep \<notin> set a \<Longrightarrow> cut sep (a @ sep # b) = (a, b)"
  by (induction a) (auto simp: cut_def)

lemma cut_no_separator: "sep \<notin> set a \<Longrightarrow> cut sep a = (a, [])"
  by (induction a) (auto simp: cut_def)

lemma encode_pair_no_separator:
  "CHR ''&'' \<notin> set (encode_pair p)" "CHR '';'' \<notin> set (encode_pair p)"
  using QueryEscape_no_separator by (auto simp: encode_pair_def)

lemma encode_pair_not_Nil: "encode_pair p \<noteq> []"
  by (simp add: encode_pair_def)

lemma cut_encode_pair:
  "cut CHR ''='' (encode_pair p) = (QueryEscape (fst p), QueryEscape (snd p))"
proof -
  have "CHR ''='' \<notin> set (QueryEscape (fst p))"
    using QueryEscape_no_separator by blast
  then show ?thesis
    unfolding encode_pair_def by (simp add: cut_at_separator)
qed

lemma cut_join_amp:
  "cut CHR ''&'' (join_amp (map encode_pair (p # ps)))
     = (encode_pair p, join_amp (map encode_pair ps))"
proof (cases ps)
  case Nil
  then show ?thesis by (simp add: cut_no_separator encode_pair_no_separator)
next
  case (Cons p' ps')
  then show ?thesis by (simp add: cut_at_separator encode_pair_no_separator)
qed

lemma join_amp_not_Nil: "join_amp (map encode_pair (p # ps)) \<noteq> []"
  by (cases ps) (simp_all add: encode_pair_not_Nil)

lemma parseQuery_join_amp:
  "parseQuery m (join_amp (map encode_pair ps))
     = fold (\<lambda>p m. Values_Add m (fst p) (snd p)) ps m"
proof (induction ps arbitrary: m)
  case Nil
  then show ?case by (simp add: parseQuery.simps)
next
  case (Cons p ps)
  have "parseQuery m (join_amp (map encode_pair (p # ps)))
      = parseQuery (Values_Add m (fst p) (snd p)) (join_amp (map encode_pair ps))"
    by (subst parseQuery.simps)
      (simp add: join_amp_not_Nil cut_join_amp encode_pair_no_separator encode_pair_not_Nil
        cut_encode_pair QueryUnescape_QueryEscape del: join_amp.simps list.map)
  then show ?case by (simp add: Cons.IH)
qed

lemma index_fold_Values_Add:
  "index (fold (\<lambda>p m. Values_Add m (fst p) (snd p)) ps m) k
     = index m k @ map snd (filter (\<lambda>p. fst p = k) ps)"
  by (induction ps arbitrary: m) (simp_all add: index_Values_Add)

lemma index_parseQuery_Values_Encode: "index (parseQuery [] (Values_Encode v)) k = index v k"
proof -
  have "index (parseQuery [] (Values_Encode v)) k
      = index [] k @ map snd (filter (\<lambda>p. fst p = k) (encode_pairs v))"
    by (simp only: Values_Encode_def parseQuery_join_amp index_fold_Values_Add)
  also have "\<dots> = encoded_values v k"
    by (simp add: encoded_values_def index_def)
  also have "\<dots> = index v k"
    by (rule encoded_values_index)
  finally show ?thesis .
qed

text \<open>
  C2. Let the caller's parameters be any map (its entries in any order). The query of
  the URL that \<^verbatim>\<open>request\<close> builds, read back as the receiving side reads it
  (\<^verbatim>\<open>URL.Query\<close>), holds under \<^verbatim>\<open>client_id\<close> and \<^verbatim>\<open>client_secret\<close> the client's
  credentials and nothing else, whatever the caller supplied under these keys, and under
  every other key the values that the URL resolved from the endpoint had, followed by all
  the values the caller supplied, in their order.
\<close>

theorem request_url_query:
  assumes "distinct (map fst query)"
    and "url_Parse lib (Path (url c) @ ''/'' @ endpoint @ ''/'') = Inr rel"
  shows "\<exists>u. request_url lib c endpoint query = Inr u
           \<and> index (URL_Query u) ''client_id'' = [clientID c]
           \<and> index (URL_Query u) ''client_secret'' = [clientSecret c]
           \<and> Values_Get (URL_Query u) ''client_id'' = clientID c
           \<and> Values_Get (URL_Query u) ''client_secret'' = clientSecret c
           \<and> (\<forall>k. k \<noteq> ''client_id'' \<and> k \<noteq> ''client_secret'' \<longrightarrow>
                 index (URL_Query u) k
                   = index (URL_Query (URL_ResolveReference lib (url c) rel)) k @ index query k)"
  using assms
  by (simp add: request_url_def fmt_s_def Let_def URL_Query_def Values_Get_def
      index_parseQuery_Values_Encode index_request_query)

lemma example_query_encoded:
  "Values_Encode (request_query example_client [] example_query)
     = ''baz=qux&baz=corge&client_id=foo&client_secret=bar&foo=bar''"
  by (simp add: example_client_def example_query_def request_query_def add_query_def
      add_values_def Values_Add_def Values_Set_def index_def Values_Encode_def encode_pair_def
      encode_pairs_def sorted_keys_def QueryEscape_def escape_byte_def shouldEscape_def
      in_range_def)

lemma example_request_url:
  "request_url (example_library r) example_client ''foo'' example_query
     = Inr \<lparr>Scheme = ''https'', Host = ''api.untappd.com'', Path = ''v4/foo/'',
            RawQuery = ''baz=qux&baz=corge&client_id=foo&client_secret=bar&foo=bar''\<rparr>"
  using example_query_encoded
  by (simp add: request_url_def example_library_def fmt_s_def Let_def URL_Query_def
      parseQuery.simps)
    (simp add: example_client_def)

text \<open>
  The parameters of \<^verbatim>\<open>TestClient_requestContainsQueryParameters\<close>, with a
  \<^verbatim>\<open>client_id\<close> of the caller's that the credentials replace.
\<close>

theorem request_url_query_witness:
  "\<exists>u. request_url (example_library (example_response ''application/json'' 200 ''{}''))
          example_client ''foo'' example_query = Inr u
     \<and> RawQuery u = ''baz=qux&baz=corge&client_id=foo&client_secret=bar&foo=bar''
     \<and> index (URL_Query u) ''client_id'' = [''foo'']
     \<and> index (URL_Query u) ''client_secret'' = [''bar'']
     \<and> index (URL_Query u) ''baz'' = [''qux'', ''corge'']
     \<and> index (URL_Query u) ''foo'' = [''bar'']"
proof -
  let ?lib = "example_library (example_response ''application/json'' 200 ''{}'')"
  let ?rel = "\<lparr>Scheme = [], Host = [], Path = ''v4/foo/'', RawQuery = []\<rparr>"
  have d: "distinct (map fst example_query)"
    by (simp add: example_query_def)
  have p: "url_Parse ?lib (Path (url example_client) @ ''/'' @ ''foo'' @ ''/'') = Inr ?rel"
    by (simp add: example_library_def example_client_def)
  have q: "URL_Query (URL_ResolveReference ?lib (url example_client) ?rel) = []"
    by (simp add: example_library_def URL_Query_def parseQuery.simps)
  from request_url_query [OF d p] obtain u where
    u: "request_url ?lib example_client ''foo'' example_query = Inr u"
      "index (URL_Query u) ''client_id'' = [clientID example_client]"
      "index (URL_Query u) ''client_secret'' = [clientSecret example_client]"
    and others: "\<forall>k. k \<noteq> ''client_id'' \<and> k \<noteq> ''client_secret'' \<longrightarrow>
      index (URL_Query u) k
        = index (URL_Query (URL_ResolveReference ?lib (url example_client) ?rel)) k
            @ index example_query k"
    by blast
  from others have
    "index (URL_Query u) ''baz''
       = index (URL_Query (URL_ResolveReference ?lib (url example_client) ?rel)) ''baz''
           @ index example_query ''baz''"
    "index (URL_Query u) ''foo''
       = index (URL_Query (URL_ResolveReference ?lib (url example_client) ?rel)) ''foo''
           @ index example_query ''foo''"
    by simp_all
  then have
    "index (URL_Query u) ''baz'' = [''qux'', ''corge'']"
    "index (URL_Query u) ''foo'' = [''bar'']"
    by (simp_all add: q index_def example_query_def)
  moreover have "RawQuery u = ''baz=qux&baz=corge&client_id=foo&client_secret=bar&foo=bar''"
    using u(1) example_request_url [of "example_response ''application/json'' 200 ''{}''"]
    by auto
  ultimately show ?thesis
    using u by (simp add: example_client_def)
qed

section \<open>Properties: decoding into the destination\<close>

text \<open>
  C8. Take a call of \<^verbatim>\<open>request\<close> whose URL and request are made, whose transport
  answers with a response, and whose response passes validation. With a destination, the
  call returns the response, and its error and its destination are those that the JSON
  decoder leaves when it decodes the body into the destination. With a nil destination
  it returns the response and no error, whatever the body.
\<close>

theorem request_decode:
  assumes "request_url lib c endpoint query = Inr u"
    and "http_NewRequest lib method (URL_String lib u) = Inr req"
    and "client c = Some hc"
    and "Client_Do lib hc (request_headers c req) = Inr res"
    and "checkResponse lib res = None"
  shows "request lib c method endpoint query (Some dst) =
           Inr (Some res,
                fst (Decode (unmarshal lib) (Body res) dst),
                Some (snd (Decode (unmarshal lib) (Body res) dst)))
       \<and> request lib c method endpoint query None = Inr (Some res, None, None)"
  using assms
  by (simp add: request_def request_response_def Let_def split: prod.splits)

lemma readValue_empty_object: "readValue ''{}'' = (2, None)"
  by (simp add: readValue_def scanner_reset_def scanner_step_def stateBeginValue_def
      stateBeginStringOrEmpty_def stateEndValue_def stateEndTop_def popParseState_def
      pushParseState_def maxNestingDepth_def isSpace_def nonSpace_def goto_def Let_def)

lemma example_checkResponse:
  "200 \<le> code \<Longrightarrow> code \<le> 299 \<Longrightarrow>
   checkResponse lib (example_response ''application/json'' code body) = None"
  by (simp add: checkResponse_def example_response_def Header_Get_def index_def
      jsonContentType_def)

text \<open>
  A body that decodes, and a body cut short: with a destination the latter gives
  \<^verbatim>\<open>io.ErrUnexpectedEOF\<close>, with a nil destination no error.
\<close>

theorem request_decode_witness:
  "request (example_library (example_response ''application/json'' 200 ''{}''))
       example_client ''GET'' ''foo'' example_query (Some 0)
     = Inr (Some (example_response ''application/json'' 200 ''{}''), None, Some 2)
   \<and> request (example_library (example_response ''application/json'' 200 ''{''))
       example_client ''GET'' ''foo'' example_query (Some 0)
     = Inr (Some (example_response ''application/json'' 200 ''{''), Some ErrUnexpectedEOF, Some 0)
   \<and> request (example_library (example_response ''application/json'' 200 ''{''))
       example_client ''GET'' ''foo'' example_query None
     = Inr (Some (example_response ''application/json'' 200 ''{''), None, None)"
proof -
  have sent: "http_NewRequest (example_library r) ''GET'' (URL_String (example_library r) u)
      = Inr \<lparr>Method = ''GET'', Request_URL = URL_String (example_library r) u,
             Request_Header = []\<rparr>" for r u
    by (simp add: example_library_def)
  have handle: "client example_client = Some ()"
    by (simp add: example_client_def)
  have answer: "Client_Do (example_library r) () req = Inr r" for r req
    by (simp add: example_library_def)
  have valid: "checkResponse (example_library r) (example_response ''application/json'' 200 body)
      = None" for r body
    by (rule example_checkResponse) simp_all
  have good: "Decode (unmarshal (example_library r)) ''{}'' (0::nat) = (None, 2)" for r
    by (simp add: Decode_def readValue_empty_object example_library_def)
  have bad: "Decode (unmarshal (example_library r)) ''{'' (0::nat) = (Some ErrUnexpectedEOF, 0)" for r
    by (simp add: Decode_def readValue_open_brace)
  show ?thesis
    using request_decode [OF example_request_url sent handle answer valid, of "''{}''" 0]
      request_decode [OF example_request_url sent handle answer valid, of "''{''" 0]
    by (simp add: good bad example_response_def)
qed

end
